theory Spec2Isabelle
  imports Complex_Main
begin

section \<open>Values exchanged with the embedding service\<close>

text \<open>
  The service (\<^verbatim>\<open>src/embedding-service/app.py\<close>) is a Flask application with three POST
  handlers in front of one lazily loaded sentence-embedding model. The handlers work on
  parsed JSON, so the model starts with Python's view of a JSON document.

  A Python float is a finite number, an infinity or NaN. Finite floats are idealised as
  reals: rounding of float32 arithmetic is outside this development.
\<close>

datatype pyfloat = Fin real | PInf | NInf | NaN

text \<open>
  The result of \<^verbatim>\<open>json.loads\<close>: \<^verbatim>\<open>None\<close>, a bool, an int, a float, a str, a list or a
  dict. A dict is kept as the list of its items (the keys of a parsed dict are distinct).
\<close>

datatype json =
    JNull
  | JBool bool
  | JInt int
  | JFloat pyfloat
  | JStr string
  | JArr "json list"
  | JObj "(string \<times> json) list"

text \<open>Python truth value testing, as used by \<^verbatim>\<open>if not data\<close> and \<^verbatim>\<open>if not text\<close>.\<close>

fun truthy :: "json \<Rightarrow> bool" where
  "truthy JNull = False"
| "truthy (JBool b) = b"
| "truthy (JInt i) = (i \<noteq> 0)"
| "truthy (JFloat x) = (x \<noteq> Fin 0)"
| "truthy (JStr s) = (s \<noteq> [])"
| "truthy (JArr xs) = (xs \<noteq> [])"
| "truthy (JObj kvs) = (kvs \<noteq> [])"

text \<open>\<^verbatim>\<open>isinstance(texts, list)\<close>\<close>

fun isinstance_list :: "json \<Rightarrow> bool" where
  "isinstance_list (JArr xs) = True"
| "isinstance_list v = False"

text \<open>
  Exceptions, each with the text that \<^verbatim>\<open>str(e)\<close> gives. \<open>Raised\<close> is an exception that
  comes out of a collaborator (Flask's \<^verbatim>\<open>request.get_json\<close>, the model constructor, the
  model's \<^verbatim>\<open>encode\<close>).
\<close>

datatype exc =
    AttributeError string
  | TypeError string
  | IndexError string
  | Raised string

fun str :: "exc \<Rightarrow> string" where
  "str (AttributeError m) = m"
| "str (TypeError m) = m"
| "str (IndexError m) = m"
| "str (Raised m) = m"

fun type_name :: "json \<Rightarrow> string" where
  "type_name JNull = ''NoneType''"
| "type_name (JBool b) = ''bool''"
| "type_name (JInt i) = ''int''"
| "type_name (JFloat x) = ''float''"
| "type_name (JStr s) = ''str''"
| "type_name (JArr xs) = ''list''"
| "type_name (JObj kvs) = ''dict''"

definition no_attribute :: "string \<Rightarrow> string \<Rightarrow> string" where
  "no_attribute ty attr =
     CHR 0x27 # ty @ CHR 0x27 # '' object has no attribute '' @ CHR 0x27 # attr @ [CHR 0x27]"

text \<open>
  \<^verbatim>\<open>data.get(key, default)\<close>: only a dict has the method; on any other value the call
  raises AttributeError.
\<close>

fun get :: "json \<Rightarrow> string \<Rightarrow> json \<Rightarrow> exc + json" where
  "get (JObj kvs) k d = Inr (case map_of kvs k of None \<Rightarrow> d | Some v \<Rightarrow> v)"
| "get v k d = Inl (AttributeError (no_attribute (type_name v) ''get''))"

text \<open>
  What \<^verbatim>\<open>encode(..., convert_to_numpy=True)\<close> hands back: a one-dimensional array (one
  vector) or a two-dimensional one (a vector per row; all rows of an array have one
  length).
\<close>

datatype ndarray = Arr1 "real list" | Arr2 "real list list"

fun tolist :: "ndarray \<Rightarrow> json" where
  "tolist (Arr1 xs) = JArr (map (\<lambda>x. JFloat (Fin x)) xs)"
| "tolist (Arr2 rows) = JArr (map (\<lambda>r. JArr (map (\<lambda>x. JFloat (Fin x)) r)) rows)"

fun len :: "ndarray \<Rightarrow> nat" where
  "len (Arr1 xs) = length xs"
| "len (Arr2 rows) = length rows"

section \<open>Collaborators and process state\<close>

text \<open>
  The sentence-transformers library and the configuration are not part of the repository;
  they are parameters. \<open>SentenceTransformer\<close> is the outcome of the constructor for a
  model name, \<open>encode m x bs\<close> the outcome of \<^verbatim>\<open>m.encode(x, convert_to_numpy=True)\<close>
  (\<open>bs = None\<close>) or of \<^verbatim>\<open>m.encode(x, convert_to_numpy=True, batch_size=b)\<close>
  (\<open>bs = Some b\<close>).
\<close>

record 'm env =
  MODEL_NAME :: string
  SentenceTransformer :: "string \<Rightarrow> exc + 'm"
  get_sentence_embedding_dimension :: "'m \<Rightarrow> int"
  encode :: "'m \<Rightarrow> json \<Rightarrow> json option \<Rightarrow> exc + ndarray"

text \<open>Calls made on the collaborators, in the order they happen.\<close>

datatype call = Construct string | Encode json "json option"

text \<open>Lines written to the logger.\<close>

datatype log_line =
    LoadingModel string
  | ModelLoaded int
  | EmbeddingError string
  | BatchEmbeddingError string
  | SimilarityError string

text \<open>
  The process state: the module-level variable \<^verbatim>\<open>model\<close> (\<^verbatim>\<open>None\<close> until loaded), and
  what the process has done so far.
\<close>

record 'm state =
  model :: "'m option"
  calls :: "call list"
  logged :: "log_line list"

definition initial :: "'m state" where
  "initial = \<lparr>model = None, calls = [], logged = []\<rparr>"

fun is_Construct :: "call \<Rightarrow> bool" where
  "is_Construct (Construct n) = True"
| "is_Construct c = False"

definition constructions :: "'m state \<Rightarrow> nat" where
  "constructions s = length (filter is_Construct (calls s))"

section \<open>load_model\<close>

text \<open>
  \<^verbatim>\<open>
  def load_model():
      global model
      if model is None:
          logger.info(f"Loading model: {MODEL_NAME}")
          model = SentenceTransformer(MODEL_NAME)
          logger.info(f"Model loaded! Dimension: {model.get_sentence_embedding_dimension()}")
      return model
  \<close>
  An exception of the constructor leaves the function before the assignment.
\<close>

definition load_model :: "'m env \<Rightarrow> 'm state \<Rightarrow> (exc + 'm) \<times> 'm state" where
  "load_model env s =
     (case model s of
        Some m \<Rightarrow> (Inr m, s)
      | None \<Rightarrow>
          (let s1 = s\<lparr>logged := logged s @ [LoadingModel (MODEL_NAME env)],
                      calls := calls s @ [Construct (MODEL_NAME env)]\<rparr>
           in case SentenceTransformer env (MODEL_NAME env) of
                Inl e \<Rightarrow> (Inl e, s1)
              | Inr m \<Rightarrow>
                  (Inr m,
                   s1\<lparr>model := Some m,
                      logged := logged s1 @ [ModelLoaded (get_sentence_embedding_dimension env m)]\<rparr>)))"

text \<open>\<open>n\<close> calls of \<open>load_model\<close>, one after the other; the outcomes in call order.\<close>

fun load_model_times :: "nat \<Rightarrow> 'm env \<Rightarrow> 'm state \<Rightarrow> (exc + 'm) list \<times> 'm state" where
  "load_model_times 0 env s = ([], s)"
| "load_model_times (Suc n) env s =
     (case load_model env s of
        (r, s1) \<Rightarrow> (case load_model_times n env s1 of (rs, s2) \<Rightarrow> (r # rs, s2)))"

section \<open>Request handlers\<close>

text \<open>
  A handler answers with \<^verbatim>\<open>jsonify(body), status\<close>. Each handler body sits in
  \<^verbatim>\<open>try: ... except Exception as e\<close>, which logs and answers
  \<^verbatim>\<open>{"error": str(e)}\<close> with status 500. The exceptions that
  \<^verbatim>\<open>request.get_json()\<close> raises on a body it cannot parse are caught there too, so the
  outcome of \<^verbatim>\<open>request.get_json()\<close> is the handler's input: \<open>Inl e\<close> when it raises,
  \<open>Inr data\<close> when it returns \<open>data\<close>.
\<close>

type_synonym response = "json \<times> nat"

definition error_response :: "string \<Rightarrow> nat \<Rightarrow> response" where
  "error_response msg status = (JObj [(''error'', JStr msg)], status)"

subsection \<open>embed\<close>

text \<open>
  \<^verbatim>\<open>
  data = request.get_json()
  if not data:
      return jsonify({"error": "Request body must be JSON"}), 400
  text = data.get('text', '')
  if not text:
      return jsonify({"error": "Field 'text' is required"}), 400
  m = load_model()
  embedding = m.encode(text, convert_to_numpy=True)
  return jsonify({"embedding": embedding.tolist(), "dimension": len(embedding),
                  "model": MODEL_NAME})
  \<close>
\<close>

definition embed_try :: "'m env \<Rightarrow> exc + json \<Rightarrow> 'm state \<Rightarrow> (exc + response) \<times> 'm state" where
  "embed_try env get_json s =
     (case get_json of
        Inl e \<Rightarrow> (Inl e, s)
      | Inr data \<Rightarrow>
          if \<not> truthy data then (Inr (error_response ''Request body must be JSON'' 400), s)
          else
            (case get data ''text'' (JStr []) of
               Inl e \<Rightarrow> (Inl e, s)
             | Inr text \<Rightarrow>
                 if \<not> truthy text then (Inr (error_response ''Field 'text' is required'' 400), s)
                 else
                   (case load_model env s of
                      (Inl e, s1) \<Rightarrow> (Inl e, s1)
                    | (Inr m, s1) \<Rightarrow>
                        (let s2 = s1\<lparr>calls := calls s1 @ [Encode text None]\<rparr>
                         in case encode env m text None of
                              Inl e \<Rightarrow> (Inl e, s2)
                            | Inr embedding \<Rightarrow>
                                (Inr (JObj [(''embedding'', tolist embedding),
                                            (''dimension'', JInt (int (len embedding))),
                                            (''model'', JStr (MODEL_NAME env))], 200),
                                 s2)))))"

definition embed :: "'m env \<Rightarrow> exc + json \<Rightarrow> 'm state \<Rightarrow> response \<times> 'm state" where
  "embed env get_json s =
     (case embed_try env get_json s of
        (Inr r, s1) \<Rightarrow> (r, s1)
      | (Inl e, s1) \<Rightarrow>
          (error_response (str e) 500, s1\<lparr>logged := logged s1 @ [EmbeddingError (str e)]\<rparr>))"

subsection \<open>embed_batch\<close>

text \<open>
  \<^verbatim>\<open>
  texts = data.get('texts', [])
  if not texts or not isinstance(texts, list):
      return jsonify({"error": "Field 'texts' must be a non-empty array"}), 400
  batch_size = data.get('batch_size', 32)
  m = load_model()
  embeddings = m.encode(texts, convert_to_numpy=True, batch_size=batch_size)
  return jsonify({"embeddings": [emb.tolist() for emb in embeddings],
                  "count": len(embeddings),
                  "dimension": len(embeddings[0]) if len(embeddings) > 0 else 0,
                  "model": MODEL_NAME})
  \<close>
  Iterating a one-dimensional array yields its scalars, which have \<^verbatim>\<open>tolist\<close> but no
  \<^verbatim>\<open>len\<close>.
\<close>

fun rows_tolist :: "ndarray \<Rightarrow> json" where
  "rows_tolist (Arr1 xs) = JArr (map (\<lambda>x. JFloat (Fin x)) xs)"
| "rows_tolist (Arr2 rows) = JArr (map (\<lambda>r. tolist (Arr1 r)) rows)"

fun first_len :: "ndarray \<Rightarrow> exc + nat" where
  "first_len (Arr1 []) = Inr 0"
| "first_len (Arr1 (x # xs)) = Inl (TypeError ''object of type 'numpy.float32' has no len()'')"
| "first_len (Arr2 []) = Inr 0"
| "first_len (Arr2 (r # rows)) = Inr (length r)"

definition embed_batch_try ::
  "'m env \<Rightarrow> exc + json \<Rightarrow> 'm state \<Rightarrow> (exc + response) \<times> 'm state" where
  "embed_batch_try env get_json s =
     (case get_json of
        Inl e \<Rightarrow> (Inl e, s)
      | Inr data \<Rightarrow>
          if \<not> truthy data then (Inr (error_response ''Request body must be JSON'' 400), s)
          else
            (case get data ''texts'' (JArr []) of
               Inl e \<Rightarrow> (Inl e, s)
             | Inr texts \<Rightarrow>
                 if \<not> truthy texts \<or> \<not> isinstance_list texts
                 then (Inr (error_response ''Field 'texts' must be a non-empty array'' 400), s)
                 else
                   (case get data ''batch_size'' (JInt 32) of
                      Inl e \<Rightarrow> (Inl e, s)
                    | Inr batch_size \<Rightarrow>
                        (case load_model env s of
                           (Inl e, s1) \<Rightarrow> (Inl e, s1)
                         | (Inr m, s1) \<Rightarrow>
                             (let s2 = s1\<lparr>calls := calls s1 @ [Encode texts (Some batch_size)]\<rparr>
                              in case encode env m texts (Some batch_size) of
                                   Inl e \<Rightarrow> (Inl e, s2)
                                 | Inr embeddings \<Rightarrow>
                                     (case first_len embeddings of
                                        Inl e \<Rightarrow> (Inl e, s2)
                                      | Inr d \<Rightarrow>
                                          (Inr (JObj [(''embeddings'', rows_tolist embeddings),
                                                      (''count'', JInt (int (len embeddings))),
                                                      (''dimension'', JInt (int d)),
                                                      (''model'', JStr (MODEL_NAME env))], 200),
                                           s2)))))))"

definition embed_batch :: "'m env \<Rightarrow> exc + json \<Rightarrow> 'm state \<Rightarrow> response \<times> 'm state" where
  "embed_batch env get_json s =
     (case embed_batch_try env get_json s of
        (Inr r, s1) \<Rightarrow> (r, s1)
      | (Inl e, s1) \<Rightarrow>
          (error_response (str e) 500,
           s1\<lparr>logged := logged s1 @ [BatchEmbeddingError (str e)]\<rparr>))"

subsection \<open>similarity\<close>

text \<open>
  \<^verbatim>\<open>np.dot\<close> of two vectors, and \<^verbatim>\<open>np.linalg.norm\<close>. The two arguments are rows of one
  array, so they have one length and \<open>zip\<close> drops nothing.
\<close>

definition dot :: "real list \<Rightarrow> real list \<Rightarrow> real" where
  "dot v w = sum_list (map (\<lambda>(x, y). x * y) (zip v w))"

definition norm2 :: "real list \<Rightarrow> real" where
  "norm2 v = sqrt (sum_list (map (\<lambda>x. x * x) v))"

text \<open>
  Division of numpy floating-point scalars. Dividing by zero raises nothing: it gives NaN
  for \<open>0 / 0\<close> and an infinity otherwise.
\<close>

definition np_divide :: "real \<Rightarrow> real \<Rightarrow> pyfloat" where
  "np_divide a b =
     (if b = 0 then (if a = 0 then NaN else if 0 < a then PInf else NInf)
      else Fin (a / b))"

definition cosine :: "real list \<Rightarrow> real list \<Rightarrow> pyfloat" where
  "cosine v w = np_divide (dot v w) (norm2 v * norm2 w)"

text \<open>
  \<^verbatim>\<open>
  similarity_score = np.dot(embeddings[0], embeddings[1]) / (
      np.linalg.norm(embeddings[0]) * np.linalg.norm(embeddings[1]))
  \<close>
  \<^verbatim>\<open>embeddings[0]\<close> is evaluated first, then \<^verbatim>\<open>embeddings[1]\<close>; an index past the end
  raises IndexError. The elements of a one-dimensional array are scalars, for which the
  dot product is the product and the norm the absolute value.
\<close>

fun similarity_score :: "ndarray \<Rightarrow> exc + pyfloat" where
  "similarity_score (Arr2 (v # w # rows)) = Inr (cosine v w)"
| "similarity_score (Arr1 (x # y # xs)) = Inr (cosine [x] [y])"
| "similarity_score (Arr2 [v]) =
     Inl (IndexError ''index 1 is out of bounds for axis 0 with size 1'')"
| "similarity_score (Arr1 [x]) =
     Inl (IndexError ''index 1 is out of bounds for axis 0 with size 1'')"
| "similarity_score (Arr2 []) =
     Inl (IndexError ''index 0 is out of bounds for axis 0 with size 0'')"
| "similarity_score (Arr1 []) =
     Inl (IndexError ''index 0 is out of bounds for axis 0 with size 0'')"

text \<open>
  \<^verbatim>\<open>
  text1 = data.get('text1', '')
  text2 = data.get('text2', '')
  if not text1 or not text2:
      return jsonify({"error": "Fields 'text1' and 'text2' are required"}), 400
  m = load_model()
  embeddings = m.encode([text1, text2], convert_to_numpy=True)
  ...
  return jsonify({"similarity": float(similarity_score), "text1": text1, "text2": text2,
                  "model": MODEL_NAME})
  \<close>
\<close>

definition similarity_try ::
  "'m env \<Rightarrow> exc + json \<Rightarrow> 'm state \<Rightarrow> (exc + response) \<times> 'm state" where
  "similarity_try env get_json s =
     (case get_json of
        Inl e \<Rightarrow> (Inl e, s)
      | Inr data \<Rightarrow>
          if \<not> truthy data then (Inr (error_response ''Request body must be JSON'' 400), s)
          else
            (case get data ''text1'' (JStr []) of
               Inl e \<Rightarrow> (Inl e, s)
             | Inr text1 \<Rightarrow>
                 (case get data ''text2'' (JStr []) of
                    Inl e \<Rightarrow> (Inl e, s)
                  | Inr text2 \<Rightarrow>
                      if \<not> truthy text1 \<or> \<not> truthy text2
                      then (Inr (error_response ''Fields 'text1' and 'text2' are required'' 400), s)
                      else
                        (case load_model env s of
                           (Inl e, s1) \<Rightarrow> (Inl e, s1)
                         | (Inr m, s1) \<Rightarrow>
                             (let s2 = s1\<lparr>calls := calls s1 @ [Encode (JArr [text1, text2]) None]\<rparr>
                              in case encode env m (JArr [text1, text2]) None of
                                   Inl e \<Rightarrow> (Inl e, s2)
                                 | Inr embeddings \<Rightarrow>
                                     (case similarity_score embeddings of
                                        Inl e \<Rightarrow> (Inl e, s2)
                                      | Inr score \<Rightarrow>
                                          (Inr (JObj [(''similarity'', JFloat score),
                                                      (''text1'', text1),
                                                      (''text2'', text2),
                                                      (''model'', JStr (MODEL_NAME env))], 200),
                                           s2)))))))"

definition similarity :: "'m env \<Rightarrow> exc + json \<Rightarrow> 'm state \<Rightarrow> response \<times> 'm state" where
  "similarity env get_json s =
     (case similarity_try env get_json s of
        (Inr r, s1) \<Rightarrow> (r, s1)
      | (Inl e, s1) \<Rightarrow>
          (error_response (str e) 500,
           s1\<lparr>logged := logged s1 @ [SimilarityError (str e)]\<rparr>))"

section \<open>load_model under a threaded server\<close>

text \<open>
  The server is started with \<^verbatim>\<open>threaded=True\<close>: each request runs \<open>load_model\<close> in
  its own thread, on the one module-level \<^verbatim>\<open>model\<close>. A thread is at one of the
  statements of \<open>load_model\<close>, has returned, or has raised; a step runs one statement of
  one thread. The test, the assignment and the return are separate statements, and the
  constructor call of the assignment reads files, so another thread can run between them.
\<close>

datatype 'm pc =
    Test
  | LogLoading
  | Assign
  | LogLoaded
  | Return
  | Returned "'m option"
  | Raising exc

fun load_model_step :: "'m env \<Rightarrow> 'm pc \<Rightarrow> 'm state \<Rightarrow> 'm pc \<times> 'm state" where
  "load_model_step env Test s = (if model s = None then LogLoading else Return, s)"
| "load_model_step env LogLoading s =
     (Assign, s\<lparr>logged := logged s @ [LoadingModel (MODEL_NAME env)]\<rparr>)"
| "load_model_step env Assign s =
     (let s1 = s\<lparr>calls := calls s @ [Construct (MODEL_NAME env)]\<rparr>
      in case SentenceTransformer env (MODEL_NAME env) of
           Inl e \<Rightarrow> (Raising e, s1)
         | Inr m \<Rightarrow> (LogLoaded, s1\<lparr>model := Some m\<rparr>))"
| "load_model_step env LogLoaded s =
     (case model s of
        None \<Rightarrow>
          (Raising (AttributeError
             (no_attribute ''NoneType'' ''get_sentence_embedding_dimension'')), s)
      | Some m \<Rightarrow>
          (Return,
           s\<lparr>logged := logged s @ [ModelLoaded (get_sentence_embedding_dimension env m)]\<rparr>))"
| "load_model_step env Return s = (Returned (model s), s)"
| "load_model_step env (Returned r) s = (Returned r, s)"
| "load_model_step env (Raising e) s = (Raising e, s)"

text \<open>The scheduler picks thread \<open>i\<close>; a schedule is the list of its picks.\<close>

definition step :: "'m env \<Rightarrow> nat \<Rightarrow> 'm pc list \<times> 'm state \<Rightarrow> 'm pc list \<times> 'm state" where
  "step env i cfg =
     (case cfg of
        (threads, s) \<Rightarrow>
          if i < length threads
          then (case load_model_step env (threads ! i) s of
                  (p, s1) \<Rightarrow> (threads[i := p], s1))
          else (threads, s))"

definition run :: "'m env \<Rightarrow> nat list \<Rightarrow> 'm pc list \<times> 'm state \<Rightarrow> 'm pc list \<times> 'm state" where
  "run env schedule cfg = fold (step env) schedule cfg"

section \<open>A concrete environment\<close>

text \<open>
  A model whose handle is a number, which loads, and which embeds a string as
  \<open>[length, 1]\<close> and anything else as \<open>[0, 0]\<close>; a list is embedded row by row.
\<close>

fun toy_vector :: "json \<Rightarrow> real list" where
  "toy_vector (JStr t) = [real (length t), 1]"
| "toy_vector v = [0, 0]"

fun toy_encode :: "nat \<Rightarrow> json \<Rightarrow> json option \<Rightarrow> exc + ndarray" where
  "toy_encode m (JArr ts) bs = Inr (Arr2 (map toy_vector ts))"
| "toy_encode m v bs = Inr (Arr1 (toy_vector v))"

definition toy_env :: "nat env" where
  "toy_env = \<lparr>MODEL_NAME = ''all-MiniLM-L6-v2'',
              SentenceTransformer = (\<lambda>name. Inr 7),
              get_sentence_embedding_dimension = (\<lambda>m. 2),
              encode = toy_encode\<rparr>"

text \<open>The same environment with a constructor that raises.\<close>

definition broken_env :: "nat env" where
  "broken_env = toy_env\<lparr>SentenceTransformer := (\<lambda>name. Inl (Raised ''No such model''))\<rparr>"

section \<open>Loading the model\<close>

lemma load_model_loaded: "model s = Some m \<Longrightarrow> load_model env s = (Inr m, s)"
  by (simp add: load_model_def)

lemma load_model_times_loaded:
  "model s = Some m \<Longrightarrow> load_model_times n env s = (replicate n (Inr m), s)"
  by (induction n) (simp_all add: load_model_loaded)

lemma load_model_first:
  assumes "model s = None" and "SentenceTransformer env (MODEL_NAME env) = Inr m"
  shows "fst (load_model env s) = Inr m"
    and "model (snd (load_model env s)) = Some m"
    and "calls (snd (load_model env s)) = calls s @ [Construct (MODEL_NAME env)]"
  using assms by (simp_all add: load_model_def Let_def)

text \<open>
  One thread that runs the five statements of \<open>load_model\<close> without interruption does
  what the function \<open>load_model\<close> does.
\<close>

lemma one_thread_is_load_model:
  "run env [0, 0, 0, 0, 0] ([Test], s) =
     ([case fst (load_model env s) of Inl e \<Rightarrow> Raising e | Inr m \<Rightarrow> Returned (Some m)],
      snd (load_model env s))"
  by (cases "model s"; cases "SentenceTransformer env (MODEL_NAME env)")
     (simp_all add: run_def step_def load_model_def Let_def)

text \<open>
  Calls of \<open>load_model\<close> that follow one another: the first call, on an unset
  \<^verbatim>\<open>model\<close>, constructs the model and stores it, and every later call returns the same
  handle; the constructor has been called once, however many calls are made.
\<close>

theorem load_model_once:
  assumes "model s = None" and "SentenceTransformer env (MODEL_NAME env) = Inr m"
  shows "fst (load_model_times (Suc n) env s) = replicate (Suc n) (Inr m)
       \<and> model (snd (load_model_times (Suc n) env s)) = Some m
       \<and> calls (snd (load_model_times (Suc n) env s)) = calls s @ [Construct (MODEL_NAME env)]
       \<and> constructions (snd (load_model_times (Suc n) env s)) = Suc (constructions s)"
proof -
  obtain r s1 where l: "load_model env s = (r, s1)"
    by (cases "load_model env s")
  from load_model_first [OF assms] l
  have r: "r = Inr m" and m: "model s1 = Some m"
    and c: "calls s1 = calls s @ [Construct (MODEL_NAME env)]"
    by simp_all
  have "load_model_times (Suc n) env s = (replicate (Suc n) (Inr m), s1)"
    using l r load_model_times_loaded [OF m, of n env] by simp
  then show ?thesis
    using m c by (simp add: constructions_def)
qed

theorem load_model_once_witness:
  "model (initial :: nat state) = None
   \<and> SentenceTransformer toy_env (MODEL_NAME toy_env) = Inr 7
   \<and> fst (load_model_times 3 toy_env initial) = [Inr 7, Inr 7, Inr 7]
   \<and> model (snd (load_model_times 3 toy_env initial)) = Some 7
   \<and> constructions (snd (load_model_times 3 toy_env initial)) = 1"
  using load_model_once [of "initial :: nat state" toy_env 7 2]
  by (simp add: initial_def toy_env_def constructions_def numeral_3_eq_3)

text \<open>
  Once the model is stored (the script loads it before it starts the server), threads
  that call \<open>load_model\<close> change nothing, whatever the schedule, and a thread that
  returns has the stored handle.
\<close>

lemma loaded_step:
  assumes "model s = Some m" and "p \<in> {Test, Return, Returned (Some m)}"
  shows "snd (load_model_step env p s) = s"
    and "fst (load_model_step env p s) \<in> {Test, Return, Returned (Some m)}"
  using assms by auto

lemma loaded_run:
  assumes "model s = Some m" and "set threads \<subseteq> {Test, Return, Returned (Some m)}"
  shows "snd (run env schedule (threads, s)) = s
       \<and> set (fst (run env schedule (threads, s))) \<subseteq> {Test, Return, Returned (Some m)}"
  using assms(2)
proof (induction schedule arbitrary: threads)
  case Nil
  then show ?case by (simp add: run_def)
next
  case (Cons i schedule)
  show ?case
  proof (cases "i < length threads")
    case False
    then have "run env (i # schedule) (threads, s) = run env schedule (threads, s)"
      by (simp add: run_def step_def)
    with Cons show ?thesis by simp
  next
    case True
    then have p: "threads ! i \<in> {Test, Return, Returned (Some m)}"
      using Cons.prems nth_mem by blast
    obtain q where q: "load_model_step env (threads ! i) s = (q, s)"
      and q': "q \<in> {Test, Return, Returned (Some m)}"
      using loaded_step [OF assms(1) p, of env]
      by (cases "load_model_step env (threads ! i) s") auto
    have r: "run env (i # schedule) (threads, s) = run env schedule (threads[i := q], s)"
      using True q by (simp add: run_def step_def)
    have "set (threads[i := q]) \<subseteq> {Test, Return, Returned (Some m)}"
      using Cons.prems q' set_update_subset_insert [of threads i q] by blast
    from Cons.IH [OF this] r show ?thesis by simp
  qed
qed

text \<open>
  C1: the model is loaded at most once, also when several threads make their first call
  at the same time, and no caller gets a model that is not fully constructed.
  \<open>load_model\<close> takes no lock. Here two threads that both test \<^verbatim>\<open>model is None\<close>
  before either has assigned both call the constructor: the model is loaded twice. Both
  threads return a constructed handle.
\<close>

theorem two_threads_load_twice:
  "constructions (snd (run toy_env [0, 1, 0, 1, 0, 1, 0, 1, 0, 1] ([Test, Test], initial))) = 2
   \<and> calls (snd (run toy_env [0, 1, 0, 1, 0, 1, 0, 1, 0, 1] ([Test, Test], initial)))
       = [Construct ''all-MiniLM-L6-v2'', Construct ''all-MiniLM-L6-v2'']
   \<and> fst (run toy_env [0, 1, 0, 1, 0, 1, 0, 1, 0, 1] ([Test, Test], initial))
       = [Returned (Some 7), Returned (Some 7)]"
  by (simp add: run_def step_def initial_def toy_env_def constructions_def)

text \<open>
  C9: when the constructor raises, \<open>load_model\<close> raises the same exception and
  \<^verbatim>\<open>model\<close> stays unset, as it was before the call; the next call of \<open>load_model\<close>
  calls the constructor again, and returns and stores the handle if the constructor
  then succeeds.
\<close>

theorem load_model_failure:
  assumes "model s = None" and "SentenceTransformer env (MODEL_NAME env) = Inl e"
  shows "fst (load_model env s) = Inl e
       \<and> model (snd (load_model env s)) = None
       \<and> calls (snd (load_model env' (snd (load_model env s))))
           = calls (snd (load_model env s)) @ [Construct (MODEL_NAME env')]
       \<and> (SentenceTransformer env' (MODEL_NAME env') = Inr m \<longrightarrow>
            fst (load_model env' (snd (load_model env s))) = Inr m
            \<and> model (snd (load_model env' (snd (load_model env s)))) = Some m)"
  using assms by (simp add: load_model_def Let_def split: sum.splits)

theorem load_model_failure_witness:
  "model (initial :: nat state) = None
   \<and> SentenceTransformer broken_env (MODEL_NAME broken_env) = Inl (Raised ''No such model'')
   \<and> fst (load_model broken_env (initial :: nat state)) = Inl (Raised ''No such model'')
   \<and> model (snd (load_model broken_env (initial :: nat state))) = None
   \<and> fst (load_model toy_env (snd (load_model broken_env initial))) = Inr 7
   \<and> constructions (snd (load_model toy_env (snd (load_model broken_env initial)))) = 2"
  using load_model_failure [of "initial :: nat state" broken_env "Raised ''No such model''"
      toy_env 7]
  by (simp add: toy_env_def broken_env_def initial_def load_model_def constructions_def)

section \<open>The body check of the three handlers\<close>

text \<open>
  C10: a body that parses to a falsy value (\<^verbatim>\<open>{}\<close>, \<^verbatim>\<open>[]\<close>, \<^verbatim>\<open>false\<close>, \<^verbatim>\<open>0\<close>,
  \<^verbatim>\<open>null\<close>) is answered by each of the three POST handlers with status 400 and the
  message "Request body must be JSON"; nothing else happens.
\<close>

theorem falsy_body:
  assumes "\<not> truthy v"
  shows "embed env (Inr v) s = (error_response ''Request body must be JSON'' 400, s)
       \<and> embed_batch env (Inr v) s = (error_response ''Request body must be JSON'' 400, s)
       \<and> similarity env (Inr v) s = (error_response ''Request body must be JSON'' 400, s)"
  using assms
  by (simp add: embed_def embed_try_def embed_batch_def embed_batch_try_def
        similarity_def similarity_try_def)

theorem falsy_body_witness:
  "\<not> truthy (JObj []) \<and> \<not> truthy (JArr []) \<and> \<not> truthy (JBool False)
   \<and> \<not> truthy (JInt 0) \<and> \<not> truthy JNull
   \<and> embed toy_env (Inr (JObj [])) initial
       = (error_response ''Request body must be JSON'' 400, initial)
   \<and> embed_batch toy_env (Inr (JArr [])) initial
       = (error_response ''Request body must be JSON'' 400, initial)
   \<and> similarity toy_env (Inr (JBool False)) initial
       = (error_response ''Request body must be JSON'' 400, initial)
   \<and> embed_batch toy_env (Inr (JInt 0)) initial
       = (error_response ''Request body must be JSON'' 400, initial)
   \<and> similarity toy_env (Inr JNull) initial
       = (error_response ''Request body must be JSON'' 400, initial)
   \<and> error_response ''Request body must be JSON'' 400
       \<noteq> error_response ''Field 'text' is required'' 400
   \<and> error_response ''Request body must be JSON'' 400
       \<noteq> error_response ''Field 'texts' must be a non-empty array'' 400
   \<and> error_response ''Request body must be JSON'' 400
       \<noteq> error_response ''Fields 'text1' and 'text2' are required'' 400"
  using falsy_body [of "JObj []" toy_env initial] falsy_body [of "JArr []" toy_env initial]
    falsy_body [of "JBool False" toy_env initial] falsy_body [of "JInt 0" toy_env initial]
    falsy_body [of "JNull" toy_env initial]
  by (simp add: error_response_def)

section \<open>The embed handler\<close>




section \<open>Cosine similarity\<close>

lemma cosine_commute: "cosine v w = cosine w v"
proof -
  have "map (\<lambda>(x, y). x * y) (zip v w) = map (\<lambda>(x, y). x * y) (zip w v)"
  proof (induction v arbitrary: w)
    case Nil
    then show ?case by simp
  next
    case (Cons x v)
    then show ?case by (cases w) (simp_all add: mult.commute)
  qed
  then show ?thesis 
    by (simp add: cosine_def dot_def mult.commute)
qed

section \<open>The similarity handler\<close>

text \<open>
  A request that passes the checks of \<open>similarity\<close>, with a model that loads and an
  \<open>encode\<close> that returns the two vectors \<open>v\<close> and \<open>w\<close>.
\<close>

lemma similarity_valid:
  assumes "kvs \<noteq> []"
    and "get (JObj kvs) ''text1'' (JStr []) = Inr t1"
    and "get (JObj kvs) ''text2'' (JStr []) = Inr t2"
    and "truthy t1" and "truthy t2"
    and "fst (load_model env s) = Inr m"
    and "encode env m (JArr [t1, t2]) None = Inr (Arr2 [v, w])"
  shows "similarity env (Inr (JObj kvs)) s =
     ((JObj [(''similarity'', JFloat (cosine v w)), (''text1'', t1), (''text2'', t2),
             (''model'', JStr (MODEL_NAME env))], 200),
      (snd (load_model env s))\<lparr>calls := calls (snd (load_model env s)) @ [Encode (JArr [t1, t2]) None]\<rparr>)"
proof -
  obtain s1 where l: "load_model env s = (Inr m, s1)"
    using assms(6) by (cases "load_model env s") simp
  show ?thesis
    using assms(1-5,7) l by (simp add: similarity_def similarity_try_def Let_def)
qed

text \<open>
  C5: with an \<open>encode\<close> that embeds each text by one function \<open>f\<close>, the score of
  \<open>(a, b)\<close> is the score of \<open>(b, a)\<close>.
\<close>

theorem similarity_symmetric:
  assumes "kvs \<noteq> []"
    and "get (JObj kvs) ''text1'' (JStr []) = Inr a"
    and "get (JObj kvs) ''text2'' (JStr []) = Inr b"
    and "kvs' \<noteq> []"
    and "get (JObj kvs') ''text1'' (JStr []) = Inr b"
    and "get (JObj kvs') ''text2'' (JStr []) = Inr a"
    and "truthy a" and "truthy b"
    and "fst (load_model env s) = Inr m"
    and "encode env m (JArr [a, b]) None = Inr (Arr2 [f a, f b])"
    and "encode env m (JArr [b, a]) None = Inr (Arr2 [f b, f a])"
  shows "\<exists>c. get (fst (fst (similarity env (Inr (JObj kvs)) s))) ''similarity'' JNull = Inr (JFloat c)
           \<and> get (fst (fst (similarity env (Inr (JObj kvs')) s))) ''similarity'' JNull = Inr (JFloat c)"
  using similarity_valid [OF assms(1,2,3,7,8,9,10)] similarity_valid [OF assms(4,5,6,8,7,9,11)]
    cosine_commute [of "f a" "f b"]
  by simp

theorem similarity_symmetric_witness:
  "\<exists>c. get (fst (fst (similarity toy_env
              (Inr (JObj [(''text1'', JStr ''abc''), (''text2'', JStr ''abcd'')])) initial)))
            ''similarity'' JNull = Inr (JFloat c)
      \<and> get (fst (fst (similarity toy_env
              (Inr (JObj [(''text1'', JStr ''abcd''), (''text2'', JStr ''abc'')])) initial)))
            ''similarity'' JNull = Inr (JFloat c)"
  using similarity_symmetric [of "[(''text1'', JStr ''abc''), (''text2'', JStr ''abcd'')]"
      "JStr ''abc''" "JStr ''abcd''" "[(''text1'', JStr ''abcd''), (''text2'', JStr ''abc'')]"
      toy_env initial 7 toy_vector]
  by (simp add: toy_env_def initial_def load_model_def)

section \<open>The batch handler\<close>

text \<open>
  A request that passes the checks of \<open>embed_batch\<close>, with a model that loads and an
  \<open>encode\<close> that returns the rows \<open>rows\<close>.
\<close>

lemma embed_batch_valid:
  assumes "kvs \<noteq> []"
    and "get (JObj kvs) ''texts'' (JArr []) = Inr (JArr texts)"
    and "texts \<noteq> []"
    and "get (JObj kvs) ''batch_size'' (JInt 32) = Inr batch_size"
    and "fst (load_model env s) = Inr m"
    and "encode env m (JArr texts) (Some batch_size) = Inr (Arr2 rows)"
  shows "embed_batch env (Inr (JObj kvs)) s =
     ((JObj [(''embeddings'', JArr (map (\<lambda>r. JArr (map (\<lambda>x. JFloat (Fin x)) r)) rows)),
             (''count'', JInt (int (length rows))),
             (''dimension'', JInt (int (case rows of [] \<Rightarrow> 0 | r # rs \<Rightarrow> length r))),
             (''model'', JStr (MODEL_NAME env))], 200),
      (snd (load_model env s))\<lparr>calls := calls (snd (load_model env s))
                                  @ [Encode (JArr texts) (Some batch_size)]\<rparr>)"
proof -
  obtain s1 where l: "load_model env s = (Inr m, s1)"
    using assms(5) by (cases "load_model env s") simp
  show ?thesis
    using assms(1-4,6) l
    by (cases rows) (simp_all add: embed_batch_def embed_batch_try_def Let_def)
qed

text \<open>
  C3: for a batch request with a non-empty \<open>texts\<close> list, the answer carries the
  vectors that \<open>encode\<close> returned, in the order returned, their number as
  \<open>count\<close>, the length of the first one as \<open>dimension\<close> (\<open>0\<close> when there is none) and
  the model name. With an \<open>encode\<close> that returns one vector per text, in the order of the
  texts, the vectors are in the order of the texts and \<open>count\<close> is the number of texts.
\<close>

theorem embed_batch_order_count:
  assumes "kvs \<noteq> []"
    and "get (JObj kvs) ''texts'' (JArr []) = Inr (JArr texts)"
    and "texts \<noteq> []"
    and "get (JObj kvs) ''batch_size'' (JInt 32) = Inr batch_size"
    and "fst (load_model env s) = Inr m"
    and "encode env m (JArr texts) (Some batch_size) = Inr (Arr2 rows)"
  shows "fst (embed_batch env (Inr (JObj kvs)) s) =
           (JObj [(''embeddings'', JArr (map (\<lambda>r. JArr (map (\<lambda>x. JFloat (Fin x)) r)) rows)),
                  (''count'', JInt (int (length rows))),
                  (''dimension'', JInt (int (case rows of [] \<Rightarrow> 0 | r # rs \<Rightarrow> length r))),
                  (''model'', JStr (MODEL_NAME env))], 200)
       \<and> (rows = map f texts \<longrightarrow>
            fst (embed_batch env (Inr (JObj kvs)) s) =
              (JObj [(''embeddings'', JArr (map (\<lambda>t. JArr (map (\<lambda>x. JFloat (Fin x)) (f t))) texts)),
                     (''count'', JInt (int (length texts))),
                     (''dimension'', JInt (int (length (f (hd texts))))),
                     (''model'', JStr (MODEL_NAME env))], 200))"
proof (intro conjI impI)
  show "fst (embed_batch env (Inr (JObj kvs)) s) =
           (JObj [(''embeddings'', JArr (map (\<lambda>r. JArr (map (\<lambda>x. JFloat (Fin x)) r)) rows)),
                  (''count'', JInt (int (length rows))),
                  (''dimension'', JInt (int (case rows of [] \<Rightarrow> 0 | r # rs \<Rightarrow> length r))),
                  (''model'', JStr (MODEL_NAME env))], 200)"
    using embed_batch_valid [OF assms] by simp
next
  assume rows: "rows = map f texts"
  obtain t ts where ts: "texts = t # ts" using assms(3) by (cases texts) simp_all
  show "fst (embed_batch env (Inr (JObj kvs)) s) =
              (JObj [(''embeddings'', JArr (map (\<lambda>t. JArr (map (\<lambda>x. JFloat (Fin x)) (f t))) texts)),
                     (''count'', JInt (int (length texts))),
                     (''dimension'', JInt (int (length (f (hd texts))))),
                     (''model'', JStr (MODEL_NAME env))], 200)"
    using embed_batch_valid [OF assms] rows ts by (simp add: comp_def)
qed

theorem embed_batch_order_count_witness:
  "fst (embed_batch toy_env (Inr (JObj [(''texts'', JArr [JStr ''abc'', JStr ''a'', JStr ''ab''])])) initial) =
     (JObj [(''embeddings'', JArr [JArr [JFloat (Fin 3), JFloat (Fin 1)],
                                   JArr [JFloat (Fin 1), JFloat (Fin 1)],
                                   JArr [JFloat (Fin 2), JFloat (Fin 1)]]),
            (''count'', JInt 3), (''dimension'', JInt 2),
            (''model'', JStr ''all-MiniLM-L6-v2'')], 200)"
  using embed_batch_order_count [of "[(''texts'', JArr [JStr ''abc'', JStr ''a'', JStr ''ab''])]"
      "[JStr ''abc'', JStr ''a'', JStr ''ab'']" "JInt 32" toy_env initial 7
      "map toy_vector [JStr ''abc'', JStr ''a'', JStr ''ab'']" toy_vector]
  by (simp add: toy_env_def initial_def load_model_def)

text \<open>
  C7, as stated: on a body that parses, the answer is the message about \<open>texts\<close> exactly
  when \<open>texts\<close> is absent, empty or not a list. The body \<^verbatim>\<open>{}\<close> parses and has no
  \<open>texts\<close>, and is answered with the message about the body.
\<close>

theorem embed_batch_empty_object:
  "fst (embed_batch toy_env (Inr (JObj [])) initial)
     = error_response ''Request body must be JSON'' 400
   \<and> fst (embed_batch toy_env (Inr (JObj [])) initial)
     \<noteq> error_response ''Field 'texts' must be a non-empty array'' 400"
  by (simp add: embed_batch_def embed_batch_try_def error_response_def)

text \<open>
  C7, amended: on a body that parses to a non-empty object, the answer is status 400
  with "Field 'texts' must be a non-empty array" exactly when \<open>texts\<close> is absent, falsy
  (empty) or not a list; otherwise \<open>load_model\<close> is called and, when it returns,
  \<open>encode\<close> is called on \<open>texts\<close>.
\<close>

theorem embed_batch_texts_check:
  assumes "kvs \<noteq> []"
  shows "(embed_batch env (Inr (JObj kvs)) s
            = (error_response ''Field 'texts' must be a non-empty array'' 400, s)
          \<longleftrightarrow> map_of kvs ''texts'' = None
              \<or> (\<exists>t. map_of kvs ''texts'' = Some t \<and> (\<not> truthy t \<or> \<not> isinstance_list t)))
       \<and> (\<forall>texts batch_size m.
             map_of kvs ''texts'' = Some texts \<and> truthy texts \<and> isinstance_list texts
             \<and> get (JObj kvs) ''batch_size'' (JInt 32) = Inr batch_size
             \<and> fst (load_model env s) = Inr m
             \<longrightarrow> calls (snd (embed_batch env (Inr (JObj kvs)) s))
                  = calls (snd (load_model env s)) @ [Encode texts (Some batch_size)])"
proof (intro conjI allI impI)
  show "embed_batch env (Inr (JObj kvs)) s
            = (error_response ''Field 'texts' must be a non-empty array'' 400, s)
          \<longleftrightarrow> map_of kvs ''texts'' = None
              \<or> (\<exists>t. map_of kvs ''texts'' = Some t \<and> (\<not> truthy t \<or> \<not> isinstance_list t))"
    using assms
    by (auto simp: embed_batch_def embed_batch_try_def error_response_def Let_def
        split: sum.splits if_splits prod.splits option.splits)
next
  fix texts batch_size m
  assume a: "map_of kvs ''texts'' = Some texts \<and> truthy texts \<and> isinstance_list texts
             \<and> get (JObj kvs) ''batch_size'' (JInt 32) = Inr batch_size
             \<and> fst (load_model env s) = Inr m"
  then obtain s1 where l: "load_model env s = (Inr m, s1)"
    by (cases "load_model env s") simp
  show "calls (snd (embed_batch env (Inr (JObj kvs)) s))
                  = calls (snd (load_model env s)) @ [Encode texts (Some batch_size)]"
    using assms a l
    by (auto simp: embed_batch_def embed_batch_try_def Let_def
        split: sum.splits option.splits)
qed

theorem embed_batch_texts_check_witness:
  "embed_batch toy_env (Inr (JObj [(''other'', JInt 1)])) initial
     = (error_response ''Field 'texts' must be a non-empty array'' 400, initial)
   \<and> embed_batch toy_env (Inr (JObj [(''texts'', JArr [])])) initial
     = (error_response ''Field 'texts' must be a non-empty array'' 400, initial)
   \<and> embed_batch toy_env (Inr (JObj [(''texts'', JStr ''abc'')])) initial
     = (error_response ''Field 'texts' must be a non-empty array'' 400, initial)
   \<and> calls (snd (embed_batch toy_env (Inr (JObj [(''texts'', JArr [JStr ''abc''])])) initial))
     = [Construct ''all-MiniLM-L6-v2'', Encode (JArr [JStr ''abc'']) (Some (JInt 32))]"
  using embed_batch_texts_check [of "[(''other'', JInt 1)]" toy_env initial]
    embed_batch_texts_check [of "[(''texts'', JArr [])]" toy_env initial]
    embed_batch_texts_check [of "[(''texts'', JStr ''abc'')]" toy_env initial]
    embed_batch_texts_check [of "[(''texts'', JArr [JStr ''abc''])]" toy_env initial]
  by (simp add: toy_env_def initial_def load_model_def)

lemma load_model_calls:
  "calls (snd (load_model env s)) = calls s
   \<or> calls (snd (load_model env s)) = calls s @ [Construct (MODEL_NAME env)]"
  by (simp add: load_model_def Let_def split: option.splits sum.splits)

text \<open>
  C8: a batch request without a \<open>batch_size\<close> field never makes a call of \<open>encode\<close>
  with another batch size than 32, and, when it passes the checks and the model loads,
  calls \<open>encode\<close> with batch size 32. A \<open>batch_size\<close> given in the request is handed
  to \<open>encode\<close> as it is, whatever its value.
\<close>

theorem embed_batch_batch_size:
  assumes "map_of kvs ''batch_size'' = None"
  shows "(\<forall>x bs. Encode x bs \<in> set (drop (length (calls s))
                      (calls (snd (embed_batch env (Inr (JObj kvs)) s))))
            \<longrightarrow> bs = Some (JInt 32))
       \<and> (kvs \<noteq> [] \<and> get (JObj kvs) ''texts'' (JArr []) = Inr (JArr texts) \<and> texts \<noteq> []
            \<and> fst (load_model env s) = Inr m \<longrightarrow>
          calls (snd (embed_batch env (Inr (JObj kvs)) s))
            = calls (snd (load_model env s)) @ [Encode (JArr texts) (Some (JInt 32))]
          \<and> (\<forall>b. calls (snd (embed_batch env (Inr (JObj ((''batch_size'', b) # kvs))) s))
                = calls (snd (load_model env s)) @ [Encode (JArr texts) (Some b)]))"
proof (intro conjI allI impI)
  fix x bs
  assume "Encode x bs \<in> set (drop (length (calls s))
                      (calls (snd (embed_batch env (Inr (JObj kvs)) s))))"
  then show "bs = Some (JInt 32)"
    using assms load_model_calls [of env s]
    by (auto simp: embed_batch_def embed_batch_try_def Let_def error_response_def
        split: sum.splits if_splits prod.splits)
next
  assume a: "kvs \<noteq> [] \<and> get (JObj kvs) ''texts'' (JArr []) = Inr (JArr texts) \<and> texts \<noteq> []
            \<and> fst (load_model env s) = Inr m"
  then obtain s1 where l: "load_model env s = (Inr m, s1)"
    by (cases "load_model env s") simp
  show "calls (snd (embed_batch env (Inr (JObj kvs)) s))
            = calls (snd (load_model env s)) @ [Encode (JArr texts) (Some (JInt 32))]"
    using assms a l
    by (auto simp: embed_batch_def embed_batch_try_def Let_def split: sum.splits)
  fix b
  show "calls (snd (embed_batch env (Inr (JObj ((''batch_size'', b) # kvs))) s))
                = calls (snd (load_model env s)) @ [Encode (JArr texts) (Some b)]"
    using assms a l
    by (auto simp: embed_batch_def embed_batch_try_def Let_def split: sum.splits)
qed

theorem embed_batch_batch_size_witness:
  "map_of [(''texts'', JArr [JStr ''abc''])] ''batch_size'' = None
   \<and> calls (snd (embed_batch toy_env (Inr (JObj [(''texts'', JArr [JStr ''abc''])])) initial))
     = [Construct ''all-MiniLM-L6-v2'', Encode (JArr [JStr ''abc'']) (Some (JInt 32))]
   \<and> calls (snd (embed_batch toy_env
        (Inr (JObj [(''batch_size'', JInt 1000000000), (''texts'', JArr [JStr ''abc''])])) initial))
     = [Construct ''all-MiniLM-L6-v2'', Encode (JArr [JStr ''abc'']) (Some (JInt 1000000000))]"
proof -
  have absent: "map_of [(''texts'', JArr [JStr ''abc''])] ''batch_size'' = None"
    by simp
  have valid: "[(''texts'', JArr [JStr ''abc''])] \<noteq> []
      \<and> get (JObj [(''texts'', JArr [JStr ''abc''])]) ''texts'' (JArr []) = Inr (JArr [JStr ''abc''])
      \<and> [JStr ''abc''] \<noteq> []
      \<and> fst (load_model toy_env initial) = Inr 7"
    by (simp add: toy_env_def initial_def load_model_def)
  have loaded: "calls (snd (load_model toy_env initial)) = [Construct ''all-MiniLM-L6-v2'']"
    by (simp add: toy_env_def initial_def load_model_def)
  note both = embed_batch_batch_size [OF absent, of initial toy_env "[JStr ''abc'']" 7,
      THEN conjunct2, THEN mp, OF valid]
  from both [THEN conjunct1] both [THEN conjunct2, THEN spec, of "JInt 1000000000"]
  show ?thesis
    by (simp only: loaded append.simps absent simp_thms)
qed

end
